theory Spec2Isabelle
  imports Complex_Main "HOL-Library.Word" "HOL-Library.Sublist"
begin

section \<open>JavaScript strings\<close>

text \<open>
  A JavaScript string is a sequence of UTF-16 code units. The pages compare, trim,
  split and concatenate strings, so a string is modelled as a list of 16-bit words.
  ASCII literals of the source are written through \<open>ascii\<close>; the Chinese
  notification texts of the admin page are written as their code units.
\<close>

type_synonym jschar = "16 word"
type_synonym jsstring = "jschar list"

definition ascii :: "string \<Rightarrow> jsstring" where
  "ascii s = map of_char s"

text \<open>
  The characters matched by \<open>\s\<close> in a regular expression, which are also the
  characters removed by \<open>String.prototype.trim\<close> (WhiteSpace and LineTerminator of
  the language definition): TAB, LF, VT, FF, CR, SP, NBSP, U+1680, U+2000 to U+200A,
  U+2028, U+2029, U+202F, U+205F, U+3000 and U+FEFF.
\<close>

definition is_space :: "jschar \<Rightarrow> bool" where
  "is_space c \<longleftrightarrow>
     (9 \<le> c \<and> c \<le> 13) \<or> c = 32 \<or> c = 160 \<or> c = 0x1680 \<or>
     (0x2000 \<le> c \<and> c \<le> 0x200A) \<or> c = 0x2028 \<or> c = 0x2029 \<or>
     c = 0x202F \<or> c = 0x205F \<or> c = 0x3000 \<or> c = 0xFEFF"

text \<open>\<open>s.trim()\<close>: leading and trailing white space removed.\<close>

definition trim :: "jsstring \<Rightarrow> jsstring" where
  "trim s = rev (dropWhile is_space (rev (dropWhile is_space s)))"

text \<open>
  \<open>s.split(/\s+/)\<close>. The pattern matches a maximal run of white space, never the
  empty string. The pieces are the texts between the runs: a string that starts with
  white space has an empty first piece, one that ends with white space has an empty last
  piece, and the empty string gives the single piece \<open>""\<close>. \<open>split_from cur s\<close> is
  the scan with the piece \<open>cur\<close> collected so far.
\<close>

function split_from :: "jsstring \<Rightarrow> jsstring \<Rightarrow> jsstring list" where
  "split_from cur [] = [cur]"
| "split_from cur (c # cs) =
     (if is_space c then cur # split_from [] (dropWhile is_space cs)
      else split_from (cur @ [c]) cs)"
  by pat_completeness auto
termination
  by (relation "measure (\<lambda>(cur, s). length s)")
     (auto simp: length_dropWhile_le less_Suc_eq_le)

definition split_ws :: "jsstring \<Rightarrow> jsstring list" where
  "split_ws s = split_from [] s"

text \<open>
  The string of a non-negative integer, as a template literal prints a number
  (decimal digits, no sign, no leading zero).
\<close>

definition digit :: "nat \<Rightarrow> jschar" where
  "digit d = of_nat (48 + d)"

fun decimal :: "nat \<Rightarrow> jsstring" where
  "decimal n = (if n < 10 then [digit n] else decimal (n div 10) @ [digit (n mod 10)])"

declare decimal.simps [simp del]

section \<open>Magazine page: reading time\<close>

text \<open>
  \<^verbatim>\<open>
  function estimateReadTime(content: string): string {
    const wordsPerMinute = 200;
    const wordCount = content.split(/\s+/).length;
    const minutes = Math.ceil(wordCount / wordsPerMinute);
    return `${minutes} min read`;
  }
  \<close>
  \<open>wordCount\<close> is the length of an array, a natural number far below \<open>2^53\<close>, so the
  quotient's ceiling is the ceiling of the exact quotient: \<open>ceil_div\<close>.
\<close>

definition wordsPerMinute :: nat where
  "wordsPerMinute = 200"

definition ceil_div :: "nat \<Rightarrow> nat \<Rightarrow> nat" where
  "ceil_div a b = (a + b - 1) div b"

definition wordCount :: "jsstring \<Rightarrow> nat" where
  "wordCount content = length (split_ws content)"

definition minutes :: "jsstring \<Rightarrow> nat" where
  "minutes content = ceil_div (wordCount content) wordsPerMinute"

definition estimateReadTime :: "jsstring \<Rightarrow> jsstring" where
  "estimateReadTime content = decimal (minutes content) @ ascii '' min read''"

text \<open>
  The words of a text, as a reader counts them: the maximal runs of characters that are
  not white space. This is the reading of "whitespace-delimited tokens" that the
  examples of the specification (a 400-word body, a 1-word body) use.
\<close>

function words_of :: "jsstring \<Rightarrow> jsstring list" where
  "words_of [] = []"
| "words_of (c # cs) =
     (if is_space c then words_of cs
      else (c # takeWhile (\<lambda>x. \<not> is_space x) cs) # words_of (dropWhile (\<lambda>x. \<not> is_space x) cs))"
  by pat_completeness auto
termination
  by (relation "measure length") (auto simp: length_dropWhile_le less_Suc_eq_le)

text \<open>The empty pieces that the split adds at the two ends of a text.\<close>

definition leading_piece :: "jsstring \<Rightarrow> nat" where
  "leading_piece s = (if s = [] \<or> is_space (hd s) then 1 else 0)"

definition trailing_piece :: "jsstring \<Rightarrow> nat" where
  "trailing_piece s = (if s \<noteq> [] \<and> is_space (last s) then 1 else 0)"

section \<open>Values of the language that the pages use\<close>

text \<open>
  A nullable or optional value is an \<open>option\<close>: \<open>None\<close> is \<open>null\<close> or \<open>undefined\<close>,
  which every test of the pages treats alike (both are falsy). \<open>a || d\<close> on a nullable
  string takes \<open>d\<close> when \<open>a\<close> is \<open>null\<close> or the empty string.
\<close>

fun or_string :: "jsstring option \<Rightarrow> jsstring \<Rightarrow> jsstring" where
  "or_string None d = d"
| "or_string (Some s) d = (if s = [] then d else s)"

fun or_undefined :: "jsstring option \<Rightarrow> jsstring option" where
  "or_undefined None = None"
| "or_undefined (Some s) = (if s = [] then None else Some s)"

text \<open>
  Points in time are milliseconds since the epoch. What the \<open>Date\<close> library computes
  from them depends on the time zone and the locale of the browser, so the three
  readings the pages make are parameters: the clock (\<open>new Date()\<close>),
  \<open>getFullYear()\<close>, and \<open>toLocaleDateString('en-US', {month: 'long', year: 'numeric'})\<close>.
  The year is taken to be a natural number, as it is for every date a row can carry.
\<close>

type_synonym timestamp = int

record date_env =
  now :: timestamp
  getFullYear :: "timestamp \<Rightarrow> nat"
  monthYear :: "timestamp \<Rightarrow> jsstring"

text \<open>
  \<open>Array.prototype.findIndex\<close>: the index of the first element that satisfies the
  test, \<open>-1\<close> when there is none.
\<close>

fun findIndex_from :: "int \<Rightarrow> ('a \<Rightarrow> bool) \<Rightarrow> 'a list \<Rightarrow> int" where
  "findIndex_from k P [] = -1"
| "findIndex_from k P (x # xs) = (if P x then k else findIndex_from (k + 1) P xs)"

definition findIndex :: "('a \<Rightarrow> bool) \<Rightarrow> 'a list \<Rightarrow> int" where
  "findIndex P xs = findIndex_from 0 P xs"

text \<open>
  The remainder \<open>a % b\<close> on integers: it has the sign of the dividend, and it is \<open>NaN\<close>
  (here \<open>None\<close>) when the divisor is zero. A negative zero reads an array like zero.
\<close>

definition js_rem :: "int \<Rightarrow> int \<Rightarrow> int option" where
  "js_rem a b = (if b = 0 then None else Some (sgn a * (\<bar>a\<bar> mod \<bar>b\<bar>)))"

text \<open>\<open>xs[i]\<close>: \<open>undefined\<close> when the index is \<open>NaN\<close> or out of range.\<close>

fun array_at :: "'a list \<Rightarrow> int option \<Rightarrow> 'a option" where
  "array_at xs None = None"
| "array_at xs (Some i) = (if 0 \<le> i \<and> i < int (length xs) then Some (xs ! nat i) else None)"

text \<open>
  \<open>new Set(xs)\<close> followed by \<open>Array.from\<close>: the distinct elements in the order of
  their first occurrence.
\<close>

definition set_add :: "'a list \<Rightarrow> 'a \<Rightarrow> 'a list" where
  "set_add s x = (if x \<in> set s then s else s @ [x])"

definition new_Set :: "'a list \<Rightarrow> 'a list" where
  "new_Set xs = foldl set_add [] xs"

section \<open>Photography page\<close>

record photo =
  photo_id :: int
  src :: jsstring
  photo_title :: jsstring
  location :: jsstring
  photo_year :: jsstring
  description :: jsstring
  camera :: "jsstring option"
  lens :: "jsstring option"
  settings :: "jsstring option"

text \<open>
  A row of \<open>trpc.photos.list\<close>, with the fields the page reads. The row type is
  declared on the server; the nullable fields are those the page guards with \<open>||\<close> or a
  conditional.
\<close>

record db_photo =
  db_photo_id :: int
  imageUrl :: jsstring
  db_photo_title :: jsstring
  db_location :: "jsstring option"
  db_photo_publishedAt :: "timestamp option"
  db_description :: "jsstring option"
  db_camera :: "jsstring option"
  db_lens :: "jsstring option"
  db_settings :: "jsstring option"

definition static_photo :: "int \<Rightarrow> jsstring \<Rightarrow> jsstring \<Rightarrow> jsstring \<Rightarrow> jsstring \<Rightarrow> jsstring \<Rightarrow> photo" where
  "static_photo i s t l y d =
     \<lparr>photo_id = i, src = s, photo_title = t, location = l, photo_year = y, description = d,
      camera = None, lens = None, settings = None\<rparr>"

definition staticPhotos :: "photo list" where
  "staticPhotos =
    [static_photo 1 (ascii ''/images/DSCF3114.JPG'') (ascii ''Winter Solitude'')
       (ascii ''Isle of Skye, Scotland'') (ascii ''2024'')
       (ascii ''Snow-covered peaks under a pale winter sky, where silence speaks louder than words.''),
     static_photo 2 (ascii ''/images/image7.jpg'') (ascii ''Edge of the World'')
       (ascii ''Seven Sisters, England'') (ascii ''2024'')
       (ascii ''Where chalk cliffs meet the sea, two figures walk toward the infinite horizon.''),
     static_photo 3 (ascii ''/images/image1.jpg'') (ascii ''Turquoise Waters'')
       ([0x00C9] @ ascii ''tretat, France'') (ascii ''2024'')
       (ascii ''A lone kayaker navigates the crystal waters beneath ancient limestone cliffs.''),
     static_photo 4 (ascii ''/images/image5.jpg'') (ascii ''Threshold'')
       (ascii ''York, England'') (ascii ''2024'')
       (ascii ''An elderly man pauses at the doorway, caught between shadow and light.''),
     static_photo 5 (ascii ''/images/image2.jpg'') (ascii ''Florentine Light'')
       (ascii ''Florence, Italy'') (ascii ''2024'')
       (ascii ''The Duomo'' @ [0x0027] @ ascii ''s intricate facade glows in the golden hour, as crowds gather below.''),
     static_photo 6 (ascii ''/images/image3.jpg'') (ascii ''Roman Passage'')
       (ascii ''Rome, Italy'') (ascii ''2024'')
       (ascii ''The Pantheon stands eternal, as modern life flows past its ancient columns.'')]"

text \<open>The callback of \<open>dbPhotos.map\<close>.\<close>

definition toPhoto :: "date_env \<Rightarrow> db_photo \<Rightarrow> photo" where
  "toPhoto env p =
     \<lparr>photo_id = db_photo_id p,
      src = imageUrl p,
      photo_title = db_photo_title p,
      location = or_string (db_location p) [],
      photo_year = (case db_photo_publishedAt p of
                      Some t \<Rightarrow> decimal (getFullYear env t)
                    | None \<Rightarrow> decimal (getFullYear env (now env))),
      description = or_string (db_description p) [],
      camera = or_undefined (db_camera p),
      lens = or_undefined (db_lens p),
      settings = or_undefined (db_settings p)\<rparr>"

text \<open>
  \<^verbatim>\<open>
  const photos = useMemo(() => {
    if (dbPhotos && dbPhotos.length > 0) { return dbPhotos.map(p => ({...})); }
    return staticPhotos;
  }, [dbPhotos]);
  \<close>
  \<open>dbPhotos\<close> is \<open>undefined\<close> while the query has no data.
\<close>

definition photos :: "date_env \<Rightarrow> db_photo list option \<Rightarrow> photo list" where
  "photos env dbPhotos =
     (case dbPhotos of
        Some ps \<Rightarrow> if length ps > 0 then map (toPhoto env) ps else staticPhotos
      | None \<Rightarrow> staticPhotos)"

text \<open>
  The state of the page that the lightbox handlers write: the selected photo and the
  \<open>overflow\<close> style of the document body (\<open>None\<close> before any handler has set it).
  A selection of \<open>undefined\<close>, which \<open>navigatePhoto\<close> stores when it reads past the
  array, is \<open>None\<close> like \<open>null\<close>: the handlers and the rendering only test whether the
  selection is truthy.
\<close>

datatype overflow = Hidden | Auto

record gallery =
  selectedPhoto :: "photo option"
  bodyOverflow :: "overflow option"

datatype direction = Prev | Next


definition closeLightbox :: "gallery \<Rightarrow> gallery" where
  "closeLightbox g = g\<lparr>selectedPhoto := None, bodyOverflow := Some Auto\<rparr>"

text \<open>
  \<^verbatim>\<open>
  const navigatePhoto = (direction: "prev" | "next") => {
    if (!selectedPhoto) return;
    const currentIndex = photos.findIndex((p) => p.id === selectedPhoto.id);
    const newIndex =
      direction === "next"
        ? (currentIndex + 1) % photos.length
        : (currentIndex - 1 + photos.length) % photos.length;
    setSelectedPhoto(photos[newIndex]);
  };
  \<close>
\<close>

definition currentIndex :: "photo list \<Rightarrow> photo \<Rightarrow> int" where
  "currentIndex ps sel = findIndex (\<lambda>p. photo_id p = photo_id sel) ps"

definition newIndex :: "photo list \<Rightarrow> direction \<Rightarrow> photo \<Rightarrow> int option" where
  "newIndex ps dir sel =
     (if dir = Next
      then js_rem (currentIndex ps sel + 1) (int (length ps))
      else js_rem (currentIndex ps sel - 1 + int (length ps)) (int (length ps)))"

definition navigatePhoto :: "photo list \<Rightarrow> direction \<Rightarrow> gallery \<Rightarrow> gallery" where
  "navigatePhoto ps dir g =
     (case selectedPhoto g of
        None \<Rightarrow> g
      | Some sel \<Rightarrow> g\<lparr>selectedPhoto := array_at ps (newIndex ps dir sel)\<rparr>)"

section \<open>Magazine page: essays\<close>

record essay =
  essay_id :: int
  essay_title :: jsstring
  subtitle :: jsstring
  excerpt :: jsstring
  date :: jsstring
  readTime :: jsstring
  essay_category :: jsstring
  coverImage :: jsstring

text \<open>A row of \<open>trpc.essays.list\<close>, with the fields the page reads.\<close>

record db_essay =
  db_essay_id :: int
  db_essay_title :: jsstring
  db_subtitle :: "jsstring option"
  db_excerpt :: "jsstring option"
  db_essay_publishedAt :: "timestamp option"
  db_content :: "jsstring option"
  db_essay_category :: "jsstring option"
  coverImageUrl :: "jsstring option"

definition staticEssays :: "essay list" where
  "staticEssays =
    [\<lparr>essay_id = 1,
      essay_title = ascii ''The Art of Seeing'',
      subtitle = ascii ''On Photography and Presence'',
      excerpt = ascii ''In an age of infinite images, what does it mean to truly see? The camera becomes not just a tool for capture, but a lens through which we learn to inhabit the present moment more fully.'',
      date = ascii ''December 2024'',
      readTime = ascii ''12 min read'',
      essay_category = ascii ''Photography'',
      coverImage = ascii ''/images/image7.jpg''\<rparr>,
     \<lparr>essay_id = 2,
      essay_title = ascii ''Wandering Through Time'',
      subtitle = ascii ''Reflections on European Architecture'',
      excerpt = ascii ''Standing before the Pantheon, one feels the weight of two millennia pressing down through those ancient columns. Architecture, at its finest, is frozen music'' @ [0x2014] @ ascii ''a symphony in stone that plays across centuries.'',
      date = ascii ''November 2024'',
      readTime = ascii ''15 min read'',
      essay_category = ascii ''Travel'',
      coverImage = ascii ''/images/image3.jpg''\<rparr>,
     \<lparr>essay_id = 3,
      essay_title = ascii ''The Silence of Snow'',
      subtitle = ascii ''A Winter Journey to the Scottish Highlands'',
      excerpt = ascii ''There is a particular quality to highland silence in winter'' @ [0x2014] @ ascii ''not an absence of sound, but a presence of stillness so profound it becomes almost audible. The mountains hold their breath.'',
      date = ascii ''October 2024'',
      readTime = ascii ''10 min read'',
      essay_category = ascii ''Travel'',
      coverImage = ascii ''/images/DSCF3114.JPG''\<rparr>,
     \<lparr>essay_id = 4,
      essay_title = ascii ''Portraits of Strangers'',
      subtitle = ascii ''The Ethics and Aesthetics of Street Photography'',
      excerpt = ascii ''Every photograph of a stranger is an act of both intimacy and intrusion. We capture moments that belong to others, freezing their private gestures into our public narratives.'',
      date = ascii ''September 2024'',
      readTime = ascii ''18 min read'',
      essay_category = ascii ''Photography'',
      coverImage = ascii ''/images/image5.jpg''\<rparr>]"

text \<open>
  The callback of \<open>dbEssays.map\<close>. A content of \<open>null\<close> or \<open>""\<close> is falsy and gets
  the fixed label, so \<open>estimateReadTime\<close> is called on non-empty contents only.
\<close>

definition toEssay :: "date_env \<Rightarrow> db_essay \<Rightarrow> essay" where
  "toEssay env e =
     \<lparr>essay_id = db_essay_id e,
      essay_title = db_essay_title e,
      subtitle = or_string (db_subtitle e) [],
      excerpt = or_string (db_excerpt e) [],
      date = (case db_essay_publishedAt e of
                Some t \<Rightarrow> monthYear env t
              | None \<Rightarrow> monthYear env (now env)),
      readTime = (case db_content e of
                    Some c \<Rightarrow> if c \<noteq> [] then estimateReadTime c else ascii ''5 min read''
                  | None \<Rightarrow> ascii ''5 min read''),
      essay_category = or_string (db_essay_category e) (ascii ''Uncategorized''),
      coverImage = or_string (coverImageUrl e) (ascii ''/images/image7.jpg'')\<rparr>"

definition essays :: "date_env \<Rightarrow> db_essay list option \<Rightarrow> essay list" where
  "essays env dbEssays =
     (case dbEssays of
        Some es \<Rightarrow> if length es > 0 then map (toEssay env) es else staticEssays
      | None \<Rightarrow> staticEssays)"

text \<open>
  \<^verbatim>\<open>
  const categories = useMemo(() => {
    const uniqueCategories = new Set(essays.map(e => e.category));
    return ["All", ...Array.from(uniqueCategories)];
  }, [essays]);

  const filteredEssays =
    selectedCategory === "All"
      ? essays
      : essays.filter((essay) => essay.category === selectedCategory);
  \<close>
\<close>

definition categories :: "essay list \<Rightarrow> jsstring list" where
  "categories es = ascii ''All'' # new_Set (map essay_category es)"

definition filteredEssays :: "jsstring \<Rightarrow> essay list \<Rightarrow> essay list" where
  "filteredEssays selectedCategory es =
     (if selectedCategory = ascii ''All'' then es
      else filter (\<lambda>e. essay_category e = selectedCategory) es)"

section \<open>Admin page for papers\<close>

record PaperFormData =
  title :: jsstring
  authors :: jsstring
  abstract :: jsstring
  journal :: jsstring
  year :: int
  volume :: jsstring
  issue :: jsstring
  pages :: jsstring
  doi :: jsstring
  pdfUrl :: jsstring
  pdfKey :: jsstring
  category :: jsstring
  tags :: jsstring
  citations :: int
  featured :: bool
  published :: bool

text \<open>
  \<open>defaultFormData\<close>; its year is \<open>new Date().getFullYear()\<close> at the time the module is
  loaded, the parameter \<open>y\<close>.
\<close>

definition defaultFormData :: "int \<Rightarrow> PaperFormData" where
  "defaultFormData y =
     \<lparr>title = [], authors = [], abstract = [], journal = [], year = y, volume = [],
      issue = [], pages = [], doi = [], pdfUrl = [], pdfKey = [], category = [], tags = [],
      citations = 0, featured = False, published = False\<rparr>"

text \<open>
  A row of \<open>trpc.papers.listAll\<close>, with the fields the page reads; the nullable ones are
  those \<open>openEditDialog\<close> guards with \<open>||\<close>.
\<close>

record paper =
  paper_id :: int
  paper_title :: jsstring
  paper_authors :: jsstring
  paper_abstract :: "jsstring option"
  paper_journal :: "jsstring option"
  paper_year :: "int option"
  paper_volume :: "jsstring option"
  paper_issue :: "jsstring option"
  paper_pages :: "jsstring option"
  paper_doi :: "jsstring option"
  paper_pdfUrl :: "jsstring option"
  paper_pdfKey :: "jsstring option"
  paper_category :: "jsstring option"
  paper_tags :: "jsstring option"
  paper_citations :: "int option"
  paper_featured :: "bool option"
  paper_published :: "bool option"

text \<open>Truthiness of a nullable number and of a nullable boolean, and \<open>a || d\<close> on numbers.\<close>

fun truthy_num :: "int option \<Rightarrow> bool" where
  "truthy_num None = False"
| "truthy_num (Some n) = (n \<noteq> 0)"

fun truthy_bool :: "bool option \<Rightarrow> bool" where
  "truthy_bool None = False"
| "truthy_bool (Some b) = b"

fun or_num :: "int option \<Rightarrow> int \<Rightarrow> int" where
  "or_num None d = d"
| "or_num (Some n) d = (if n = 0 then d else n)"

text \<open>
  A field of the input of a remote procedure. The input keeps \<open>undefined\<close>, a field
  that the call does not carry, apart from \<open>null\<close>: the pages only ever send
  \<open>undefined\<close> or a value.
\<close>

datatype 'a js_optional = Undefined | Null | Defined 'a

text \<open>
  What the mutations are called with. \<open>handleSubmit\<close> sends the draft and a
  \<open>publishedAt\<close> that is a date or \<open>undefined\<close>; with an identifier in front it is the
  input of the update. \<open>togglePublish\<close> sends the identifier, \<open>published\<close> and
  \<open>publishedAt\<close> only.
\<close>

record submitData = PaperFormData +
  publishedAt :: "timestamp js_optional"

datatype update_input =
  FormUpdate int submitData
| PublishUpdate int bool "timestamp js_optional"

text \<open>
  What a handler does outside the component state, in the order it does it: calls of the
  three mutations (\<open>mutate\<close>), the invalidation of the cached \<open>listAll\<close> query, and
  the notifications.
\<close>

datatype effect =
  CreateMutate submitData
| UpdateMutate update_input
| DeleteMutate int
| InvalidateListAll
| ToastSuccess jsstring
| ToastError jsstring

text \<open>The effects that are calls of the remote procedures.\<close>

fun is_mutation :: "effect \<Rightarrow> bool" where
  "is_mutation (CreateMutate d) = True"
| "is_mutation (UpdateMutate u) = True"
| "is_mutation (DeleteMutate i) = True"
| "is_mutation InvalidateListAll = False"
| "is_mutation (ToastSuccess m) = False"
| "is_mutation (ToastError m) = False"

record admin =
  isDialogOpen :: bool
  isDeleteDialogOpen :: bool
  editingId :: "int option"
  deletingId :: "int option"
  formData :: PaperFormData
  effects :: "effect list"

definition emit :: "effect \<Rightarrow> admin \<Rightarrow> admin" where
  "emit e st = st\<lparr>effects := effects st @ [e]\<rparr>"

text \<open>The texts of the notifications, as code units.\<close>

definition msg_title_required :: jsstring where
  "msg_title_required = [0x8BF7, 0x8F93, 0x5165, 0x6807, 0x9898]"

definition msg_authors_required :: jsstring where
  "msg_authors_required = [0x8BF7, 0x8F93, 0x5165, 0x4F5C, 0x8005]"

definition msg_created :: jsstring where
  "msg_created = [0x8BBA, 0x6587, 0x521B, 0x5EFA, 0x6210, 0x529F]"

definition msg_updated :: jsstring where
  "msg_updated = [0x8BBA, 0x6587, 0x66F4, 0x65B0, 0x6210, 0x529F]"

definition msg_deleted :: jsstring where
  "msg_deleted = [0x8BBA, 0x6587, 0x5220, 0x9664, 0x6210, 0x529F]"

definition msg_create_failed :: jsstring where
  "msg_create_failed = [0x521B, 0x5EFA, 0x5931, 0x8D25, 0x003A, 0x0020]"

definition msg_update_failed :: jsstring where
  "msg_update_failed = [0x66F4, 0x65B0, 0x5931, 0x8D25, 0x003A, 0x0020]"

definition msg_delete_failed :: jsstring where
  "msg_delete_failed = [0x5220, 0x9664, 0x5931, 0x8D25, 0x003A, 0x0020]"

text \<open>
  The handlers of the component, each as a function on its state. \<open>y0\<close> is the year in
  \<open>defaultFormData\<close>; a handler that reads the clock takes the reading as an argument.
\<close>

definition openCreateDialog :: "int \<Rightarrow> admin \<Rightarrow> admin" where
  "openCreateDialog y0 st =
     st\<lparr>editingId := None, formData := defaultFormData y0, isDialogOpen := True\<rparr>"

definition openEditDialog :: "int \<Rightarrow> paper \<Rightarrow> admin \<Rightarrow> admin" where
  "openEditDialog yearNow p st =
     st\<lparr>editingId := Some (paper_id p),
        formData :=
          \<lparr>title = paper_title p,
           authors = paper_authors p,
           abstract = or_string (paper_abstract p) [],
           journal = or_string (paper_journal p) [],
           year = or_num (paper_year p) yearNow,
           volume = or_string (paper_volume p) [],
           issue = or_string (paper_issue p) [],
           pages = or_string (paper_pages p) [],
           doi = or_string (paper_doi p) [],
           pdfUrl = or_string (paper_pdfUrl p) [],
           pdfKey = or_string (paper_pdfKey p) [],
           category = or_string (paper_category p) [],
           tags = or_string (paper_tags p) [],
           citations = or_num (paper_citations p) 0,
           featured = truthy_bool (paper_featured p),
           published = truthy_bool (paper_published p)\<rparr>,
        isDialogOpen := True\<rparr>"

definition closeDialog :: "int \<Rightarrow> admin \<Rightarrow> admin" where
  "closeDialog y0 st =
     st\<lparr>isDialogOpen := False, editingId := None, formData := defaultFormData y0\<rparr>"

text \<open>
  \<^verbatim>\<open>
  const handleSubmit = () => {
    if (!formData.title.trim()) { toast.error(...); return; }
    if (!formData.authors.trim()) { toast.error(...); return; }
    const submitData = {
      ...formData,
      publishedAt: formData.published ? new Date() : undefined,
    };
    if (editingId) {
      updateMutation.mutate({ id: editingId, ...submitData });
    } else {
      createMutation.mutate(submitData);
    }
  };
  \<close>
  An identifier of \<open>0\<close> is falsy like \<open>null\<close>.
\<close>

definition submitData_of :: "timestamp \<Rightarrow> PaperFormData \<Rightarrow> submitData" where
  "submitData_of t fd =
     PaperFormData.extend fd
       (submitData.fields (if published fd then Defined t else Undefined))"

definition handleSubmit :: "timestamp \<Rightarrow> admin \<Rightarrow> admin" where
  "handleSubmit t st =
     (if trim (title (formData st)) = [] then emit (ToastError msg_title_required) st
      else if trim (authors (formData st)) = [] then emit (ToastError msg_authors_required) st
      else
        case editingId st of
          Some i \<Rightarrow>
            if i \<noteq> 0 then emit (UpdateMutate (FormUpdate i (submitData_of t (formData st)))) st
            else emit (CreateMutate (submitData_of t (formData st))) st
        | None \<Rightarrow> emit (CreateMutate (submitData_of t (formData st))) st)"

text \<open>
  The delete button of a row: \<open>setDeletingId(paper.id); setIsDeleteDialogOpen(true)\<close>.
\<close>

definition deleteClick :: "int \<Rightarrow> admin \<Rightarrow> admin" where
  "deleteClick i st = st\<lparr>deletingId := Some i, isDeleteDialogOpen := True\<rparr>"

text \<open>
  \<^verbatim>\<open>
  const handleDelete = () => {
    if (deletingId) { deleteMutation.mutate({ id: deletingId }); }
  };
  \<close>
\<close>

definition handleDelete :: "admin \<Rightarrow> admin" where
  "handleDelete st =
     (case deletingId st of
        Some i \<Rightarrow> if i \<noteq> 0 then emit (DeleteMutate i) st else st
      | None \<Rightarrow> st)"

text \<open>
  \<^verbatim>\<open>
  const togglePublish = (paper) => {
    updateMutation.mutate({
      id: paper.id,
      published: !paper.published,
      publishedAt: !paper.published ? new Date() : undefined,
    });
  };
  \<close>
\<close>

definition togglePublish :: "timestamp \<Rightarrow> paper \<Rightarrow> admin \<Rightarrow> admin" where
  "togglePublish t p st =
     emit (UpdateMutate
             (PublishUpdate (paper_id p) (\<not> truthy_bool (paper_published p))
                (if \<not> truthy_bool (paper_published p) then Defined t else Undefined))) st"

text \<open>
  Modelled from the spec: the stored paper record and the update procedure of the store
  behind \<open>trpc.papers.update\<close>, which are server code and not part of the pages. The
  specification describes the record as the fields of a row with a publication timestamp
  (section 3), says that it is "mutated via partial update (any subset of fields ...)"
  (section 3), that an update "submits only the changed fields plus identifier" (section
  4.2), and gives the procedure as \<open>update({id, ...partialFields}) -> Item\<close> (section 6).
  So the update changes the record that the identifier names, in the fields that the
  input carries: a field that is \<open>undefined\<close> keeps its stored value, \<open>null\<close> clears
  it, and a value replaces it.
\<close>

record stored_paper = paper +
  stored_publishedAt :: "timestamp option"



text \<open>The row of the list that shows a stored record: the record without the timestamp.\<close>

definition row_of :: "stored_paper \<Rightarrow> paper" where
  "row_of r = paper.truncate r"

text \<open>The \<open>onSuccess\<close> and \<open>onError\<close> callbacks of the three mutations.\<close>

definition createSuccess :: "int \<Rightarrow> admin \<Rightarrow> admin" where
  "createSuccess y0 st = closeDialog y0 (emit (ToastSuccess msg_created) (emit InvalidateListAll st))"

definition createError :: "jsstring \<Rightarrow> admin \<Rightarrow> admin" where
  "createError message st = emit (ToastError (msg_create_failed @ message)) st"

definition updateSuccess :: "int \<Rightarrow> admin \<Rightarrow> admin" where
  "updateSuccess y0 st = closeDialog y0 (emit (ToastSuccess msg_updated) (emit InvalidateListAll st))"

definition updateError :: "jsstring \<Rightarrow> admin \<Rightarrow> admin" where
  "updateError message st = emit (ToastError (msg_update_failed @ message)) st"

definition deleteSuccess :: "admin \<Rightarrow> admin" where
  "deleteSuccess st =
     (emit (ToastSuccess msg_deleted) (emit InvalidateListAll st))
       \<lparr>isDeleteDialogOpen := False, deletingId := None\<rparr>"

definition deleteError :: "jsstring \<Rightarrow> admin \<Rightarrow> admin" where
  "deleteError message st = emit (ToastError (msg_delete_failed @ message)) st"

text \<open>
  Everything that can happen to the component: the clicks and edits of the user and the
  outcomes of the mutations. \<open>SetIsDialogOpen\<close> and \<open>SetIsDeleteDialogOpen\<close> are the
  \<open>onOpenChange\<close> callbacks of the two dialogs (the second is also the cancel button of
  the confirmation), \<open>SetFormData\<close> is an edit of a form field with its updater.
\<close>

datatype event =
  OpenCreateDialog
| OpenEditDialog int paper
| CloseDialog
| SetIsDialogOpen bool
| SetFormData "PaperFormData \<Rightarrow> PaperFormData"
| HandleSubmit timestamp
| TogglePublish timestamp paper
| DeleteClick int
| SetIsDeleteDialogOpen bool
| HandleDelete
| CreateSuccess
| CreateError jsstring
| UpdateSuccess
| UpdateError jsstring
| DeleteSuccess
| DeleteError jsstring

fun step :: "int \<Rightarrow> admin \<Rightarrow> event \<Rightarrow> admin" where
  "step y0 st OpenCreateDialog = openCreateDialog y0 st"
| "step y0 st (OpenEditDialog yearNow p) = openEditDialog yearNow p st"
| "step y0 st CloseDialog = closeDialog y0 st"
| "step y0 st (SetIsDialogOpen b) = st\<lparr>isDialogOpen := b\<rparr>"
| "step y0 st (SetFormData f) = st\<lparr>formData := f (formData st)\<rparr>"
| "step y0 st (HandleSubmit t) = handleSubmit t st"
| "step y0 st (TogglePublish t p) = togglePublish t p st"
| "step y0 st (DeleteClick i) = deleteClick i st"
| "step y0 st (SetIsDeleteDialogOpen b) = st\<lparr>isDeleteDialogOpen := b\<rparr>"
| "step y0 st HandleDelete = handleDelete st"
| "step y0 st CreateSuccess = createSuccess y0 st"
| "step y0 st (CreateError m) = createError m st"
| "step y0 st UpdateSuccess = updateSuccess y0 st"
| "step y0 st (UpdateError m) = updateError m st"
| "step y0 st DeleteSuccess = deleteSuccess st"
| "step y0 st (DeleteError m) = deleteError m st"

definition run :: "int \<Rightarrow> admin \<Rightarrow> event list \<Rightarrow> admin" where
  "run y0 st evs = foldl (step y0) st evs"

text \<open>The component as it is mounted.\<close>

definition initial :: "int \<Rightarrow> admin" where
  "initial y0 =
     \<lparr>isDialogOpen = False, isDeleteDialogOpen = False, editingId = None, deletingId = None,
      formData = defaultFormData y0, effects = []\<rparr>"

section \<open>Properties of the reading time\<close>

subsection \<open>Strings and numbers\<close>

lemma ascii_simps [simp]: "ascii [] = []" "ascii (c # cs) = of_char c # ascii cs"
  by (simp_all add: ascii_def)

text \<open>The split and the trimming on small texts.\<close>

lemma split_ws_examples:
  "split_ws [] = [[]]"
  "split_ws (ascii '' '') = [[], []]"
  "split_ws (ascii '' a  b '') = [[], ascii ''a'', ascii ''b'', []]"
  "split_ws (ascii ''a'' @ [10, 9] @ ascii ''b'') = [ascii ''a'', ascii ''b'']"
  by (simp_all add: split_ws_def is_space_def)

lemma trim_examples:
  "trim [] = []"
  "trim (ascii ''  '') = []"
  "trim ([9] @ ascii '' a b '' @ [10]) = ascii ''a b''"
  by (simp_all add: trim_def is_space_def)

lemma decimal_small: "n < 10 \<Longrightarrow> decimal n = [digit n]"
  by (simp add: decimal.simps)

lemma decimal_not_Nil: "decimal n \<noteq> []"
  by (subst decimal.simps) simp

lemma unat_digit: "n < 10 \<Longrightarrow> unat (digit n) = 48 + n"
  by (simp add: digit_def unat_of_nat take_bit_nat_eq_self del: of_nat_add)

lemma digit_eq_zero: "n < 10 \<Longrightarrow> digit n = 48 \<Longrightarrow> n = 0"
  using unat_digit [of n] by simp

lemma decimal_eq_zero: "decimal n = [48] \<Longrightarrow> n = 0"
proof (cases "n < 10")
  case True
  assume "decimal n = [48]"
  with True show ?thesis by (simp add: decimal_small digit_eq_zero)
next
  case False
  assume a: "decimal n = [48]"
  from False have "decimal n = decimal (n div 10) @ [digit (n mod 10)]"
    by (subst decimal.simps) simp
  with a decimal_not_Nil [of "n div 10"] show ?thesis by (cases "decimal (n div 10)") auto
qed

subsection \<open>The pieces of the split and the words of a text\<close>

lemma words_of_dropWhile: "words_of (dropWhile is_space s) = words_of s"
  by (induction s) auto

lemma words_of_word:
  assumes "w \<noteq> []" "\<forall>x\<in>set w. \<not> is_space x"
  shows "words_of (w @ s) = (w @ takeWhile (\<lambda>x. \<not> is_space x) s) # words_of (dropWhile (\<lambda>x. \<not> is_space x) s)"
proof -
  from assms obtain c cs where w: "w = c # cs" by (cases w) auto
  with assms have "\<not> is_space c" "\<forall>x\<in>set cs. \<not> is_space x" by auto
  then show ?thesis unfolding w
    by (simp add: takeWhile_append2 dropWhile_append2)
qed

lemma words_of_word_space:
  assumes "w \<noteq> []" "\<forall>x\<in>set w. \<not> is_space x" "is_space c"
  shows "words_of (w @ c # s) = w # words_of s"
  using words_of_word [OF assms(1,2), of "c # s"] assms(3) by simp

lemma words_of_only_word:
  assumes "w \<noteq> []" "\<forall>x\<in>set w. \<not> is_space x"
  shows "words_of w = [w]"
  using words_of_word [OF assms, of "[]"] by simp

lemma trailing_piece_append: "s \<noteq> [] \<Longrightarrow> trailing_piece (cur @ s) = trailing_piece s"
  by (simp add: trailing_piece_def)

lemma split_from_words:
  "\<forall>x\<in>set cur. \<not> is_space x \<Longrightarrow>
   split_from cur s =
     (if cur = [] \<and> (s = [] \<or> is_space (hd s)) then [[]] else []) @ words_of (cur @ s) @
     replicate (trailing_piece (cur @ s)) []"
proof (induction cur s rule: split_from.induct)
  case (1 cur)
  show ?case
  proof (cases "cur = []")
    case True
    then show ?thesis by (simp add: trailing_piece_def)
  next
    case False
    with 1 have "\<not> is_space (last cur)" by simp
    with False 1 show ?thesis by (simp add: words_of_only_word trailing_piece_def)
  qed
next
  case (2 cur c cs)
  show ?case
  proof (cases "is_space c")
    case sp: True
    define d where "d = dropWhile is_space cs"
    have hd_d: "d \<noteq> [] \<Longrightarrow> \<not> is_space (hd d)"
      unfolding d_def using hd_dropWhile by blast
    have ih: "split_from [] d =
        (if d = [] \<or> is_space (hd d) then [[]] else []) @ words_of d @ replicate (trailing_piece d) []"
      using 2(1) [OF sp] by (simp add: d_def)
    have wd: "words_of d = words_of cs" by (simp add: d_def words_of_dropWhile)
    have wcur: "words_of (cur @ c # cs) = (if cur = [] then [] else [cur]) @ words_of cs"
      using words_of_word_space [of cur c cs] 2(3) sp by simp
    have tr: "trailing_piece (cur @ c # cs) = trailing_piece (c # cs)"
      by (simp add: trailing_piece_append)
    show ?thesis
    proof (cases "d = []")
      case True
      then have all: "\<forall>x\<in>set cs. is_space x" by (simp add: d_def)
      then have "is_space (last (c # cs))" using sp by (cases cs) auto
      then have "trailing_piece (c # cs) = 1" by (simp add: trailing_piece_def)
      moreover have "words_of d = []" using True by simp
      ultimately show ?thesis using sp ih wd wcur tr True
        by (simp add: d_def trailing_piece_def)
    next
      case False
      then have "cs \<noteq> []" by (auto simp: d_def)
      have "\<exists>pre. cs = pre @ d" unfolding d_def
        by (metis takeWhile_dropWhile_id)
      then obtain pre where "cs = pre @ d" ..
      with False have "last (c # cs) = last d" by simp
      then have "trailing_piece (c # cs) = trailing_piece d"
        using False by (simp add: trailing_piece_def)
      then show ?thesis using sp ih wd wcur tr False hd_d
        by (simp add: d_def)
    qed
  next
    case nsp: False
    with 2(3) have "\<forall>x\<in>set (cur @ [c]). \<not> is_space x" by simp
    from 2(2) [OF nsp this] nsp show ?thesis by simp
  qed
qed

lemma wordCount_words:
  "wordCount s = length (words_of s) + leading_piece s + trailing_piece s"
  using split_from_words [of "[]" s]
  by (simp add: wordCount_def split_ws_def leading_piece_def)

lemma minutes_pos: "1 \<le> minutes content"
proof -
  have "split_from cur s \<noteq> []" for cur s
    by (induction cur s rule: split_from.induct) auto
  then have "1 \<le> wordCount content"
    by (simp add: wordCount_def split_ws_def Suc_le_eq)
  then show ?thesis
    by (simp add: minutes_def ceil_div_def wordsPerMinute_def Suc_le_eq div_greater_zero_iff)
qed

subsection \<open>The ceiling, and texts of repeated words\<close>

lemma ceil_div_ceiling:
  assumes b: "0 < b"
  shows "int (ceil_div a b) = \<lceil>real a / real b\<rceil>"
proof -
  define k where "k = (a + b - 1) div b"
  have 1: "k * b \<le> a + b - 1"
    unfolding k_def by (simp add: div_times_less_eq_dividend)
  have 2: "a + b - 1 < k * b + b"
    unfolding k_def using dividend_less_div_times [OF b, of "a + b - 1"] by (simp add: add.commute)
  from 2 b have "a \<le> k * b" by arith
  then have "real a \<le> real (k * b)" by (simp only: of_nat_le_iff)
  then have up: "real a / real b \<le> of_int (int k)"
    using b by (simp add: pos_divide_le_eq)
  from 1 b have "k * b < a + b" by arith
  then have "real (k * b) < real (a + b)" by (simp only: of_nat_less_iff)
  then have "(real k - 1) * real b < real a" by (simp add: algebra_simps)
  then have lo: "of_int (int k) - 1 < real a / real b"
    using b by (simp add: pos_less_divide_eq)
  from lo up have "\<lceil>real a / real b\<rceil> = int k" by (rule ceiling_unique)
  then show ?thesis by (simp add: ceil_div_def k_def)
qed

lemma concat_replicate_Nil: "concat (replicate n x) = [] \<longleftrightarrow> n = 0 \<or> x = []"
  by (induction n) auto

lemma hd_concat_replicate: "0 < n \<Longrightarrow> x \<noteq> [] \<Longrightarrow> hd (concat (replicate n x)) = hd x"
  by (cases n) auto

lemma last_concat_replicate: "0 < n \<Longrightarrow> x \<noteq> [] \<Longrightarrow> last (concat (replicate n x)) = last x"
proof (induction n)
  case 0
  then show ?case by simp
next
  case (Suc n)
  then show ?case by (cases "n = 0") (auto simp: concat_replicate_Nil)
qed

lemma words_of_repeat:
  assumes "w \<noteq> []" "\<forall>x\<in>set w. \<not> is_space x" "is_space c"
  shows "words_of (concat (replicate n (w @ [c])) @ rest) = replicate n w @ words_of rest"
proof (induction n)
  case 0
  show ?case by simp
next
  case (Suc n)
  have "words_of (concat (replicate (Suc n) (w @ [c])) @ rest)
      = words_of (w @ c # (concat (replicate n (w @ [c])) @ rest))" by simp
  also have "\<dots> = w # words_of (concat (replicate n (w @ [c])) @ rest)"
    using assms by (rule words_of_word_space)
  finally show ?case using Suc by simp
qed

lemma word_word: "ascii ''word'' \<noteq> [] \<and> (\<forall>x\<in>set (ascii ''word''). \<not> is_space x)"
  by (simp add: is_space_def)

lemma estimateReadTime_words:
  "estimateReadTime content =
     decimal (ceil_div (length (words_of content) + leading_piece content + trailing_piece content) 200)
       @ ascii '' min read''"
  by (simp add: estimateReadTime_def minutes_def wordsPerMinute_def wordCount_words)

subsection \<open>The empty text\<close>

text \<open>
  C8, as the specification states it: the estimate of the empty string is "0 min". It is
  not: splitting the empty string gives one piece, the empty string itself, so the count
  is 1 and the label is "1 min read".
\<close>

theorem estimateReadTime_empty_counterexample:
  "estimateReadTime [] = ascii ''1 min read'' \<and>
   take 5 (estimateReadTime []) \<noteq> ascii ''0 min''"
  by (simp add: estimateReadTime_def minutes_def wordCount_def split_ws_def ceil_div_def
        wordsPerMinute_def decimal_small digit_def)

text \<open>
  C8, amended: the estimate of the empty string is "1 min read". On every text the
  function returns the label of the ceiling of the number of pieces of the split over
  200; that number is at least 1, so no text gets "0 min read". The function is total
  and has no state, so it has no failure mode at all.
\<close>

theorem estimateReadTime_empty:
  "estimateReadTime [] = ascii ''1 min read'' \<and>
   estimateReadTime content =
     decimal (ceil_div (length (split_ws content)) 200) @ ascii '' min read'' \<and>
   1 \<le> ceil_div (length (split_ws content)) 200 \<and>
   estimateReadTime content \<noteq> ascii ''0 min read''"
proof -
  have a: "estimateReadTime [] = ascii ''1 min read''"
    by (simp add: estimateReadTime_def minutes_def wordCount_def split_ws_def ceil_div_def
        wordsPerMinute_def decimal_small digit_def)
  have b: "estimateReadTime content = decimal (ceil_div (length (split_ws content)) 200) @ ascii '' min read''"
    by (simp add: estimateReadTime_def minutes_def wordCount_def wordsPerMinute_def)
  have c: "1 \<le> ceil_div (length (split_ws content)) 200"
    using minutes_pos [of content] by (simp add: minutes_def wordCount_def wordsPerMinute_def)
  have d: "estimateReadTime content \<noteq> ascii ''0 min read''"
  proof
    assume "estimateReadTime content = ascii ''0 min read''"
    then have "decimal (minutes content) @ ascii '' min read'' = [48] @ ascii '' min read''"
      by (simp add: estimateReadTime_def)
    then have "decimal (minutes content) = [48]" by (simp only: append_same_eq)
    then have "minutes content = 0" by (rule decimal_eq_zero)
    with minutes_pos [of content] show False by simp
  qed
  from a b c d show ?thesis by blast
qed

subsection \<open>Texts with words\<close>

text \<open>
  C9, as the specification states it: a 400-word body yields "2 min read". A body of
  400 lines, each one word followed by a line feed, has 400 words, but the split returns
  401 pieces, the last one empty, and the label is "3 min read".
\<close>

theorem estimateReadTime_word_count_counterexample:
  "concat (replicate 400 (ascii ''word'' @ [10])) \<noteq> [] \<and>
   length (words_of (concat (replicate 400 (ascii ''word'' @ [10])))) = 400 \<and>
   estimateReadTime (concat (replicate 400 (ascii ''word'' @ [10]))) = ascii ''3 min read'' \<and>
   estimateReadTime (concat (replicate 400 (ascii ''word'' @ [10]))) \<noteq> ascii ''2 min read''"
proof -
  let ?b = "concat (replicate 400 (ascii ''word'' @ [10]))"
  have sp: "is_space 10" by (simp add: is_space_def)
  have h1: "?b \<noteq> []" by (simp add: concat_replicate_Nil)
  have h4: "length (words_of ?b) = 400"
    using word_word sp words_of_repeat [of "ascii ''word''" 10 400 "[]"]
    by (simp del: ascii_simps)
  have l: "leading_piece ?b = 0"
    by (simp add: leading_piece_def concat_replicate_Nil hd_concat_replicate is_space_def)
  have t: "trailing_piece ?b = 1"
    by (simp add: trailing_piece_def concat_replicate_Nil last_concat_replicate is_space_def)
  have r: "estimateReadTime ?b = ascii ''3 min read''"
    by (simp add: estimateReadTime_words h4 l t ceil_div_def decimal_small digit_def del: ascii_simps)
       simp
  have "ascii ''3 min read'' \<noteq> ascii ''2 min read''" by simp
  with h1 h4 r show ?thesis by simp
qed

text \<open>
  C9, amended: for every non-empty text that neither starts nor ends with white space,
  the function returns the label "<minutes> min read" of the ceiling of the number of
  words over 200; 400 such words yield "2 min read". A text of one word yields
  "1 min read" whatever surrounds the word. In general the count is that of the pieces of
  the split: the words, one empty piece for white space at the start (or for the empty
  text) and one for white space at the end. \<open>ceil_div\<close> is the ceiling of the real
  quotient.
\<close>

theorem estimateReadTime_word_count:
  "estimateReadTime content =
     decimal (ceil_div (length (words_of content) + leading_piece content + trailing_piece content) 200)
       @ ascii '' min read'' \<and>
   (content \<noteq> [] \<and> \<not> is_space (hd content) \<and> \<not> is_space (last content) \<longrightarrow>
      estimateReadTime content =
        decimal (ceil_div (length (words_of content)) 200) @ ascii '' min read'' \<and>
      (length (words_of content) = 400 \<longrightarrow> estimateReadTime content = ascii ''2 min read'')) \<and>
   (length (words_of content) = 1 \<longrightarrow> estimateReadTime content = ascii ''1 min read'') \<and>
   int (ceil_div n 200) = \<lceil>real n / 200\<rceil>"
proof -
  have g: "estimateReadTime content =
     decimal (ceil_div (length (words_of content) + leading_piece content + trailing_piece content) 200)
       @ ascii '' min read''"
    by (rule estimateReadTime_words)
  have e: "estimateReadTime content =
        decimal (ceil_div (length (words_of content)) 200) @ ascii '' min read''"
    if "content \<noteq> []" "\<not> is_space (hd content)" "\<not> is_space (last content)"
    using that by (simp add: g leading_piece_def trailing_piece_def)
  have f: "estimateReadTime content = ascii ''2 min read''"
    if "content \<noteq> []" "\<not> is_space (hd content)" "\<not> is_space (last content)"
       "length (words_of content) = 400"
    using that by (simp add: e ceil_div_def decimal_small digit_def)
  have o: "estimateReadTime content = ascii ''1 min read''"
    if "length (words_of content) = 1"
    using that by (simp add: g leading_piece_def trailing_piece_def ceil_div_def decimal_small digit_def)
  have c: "int (ceil_div n 200) = \<lceil>real n / 200\<rceil>"
    using ceil_div_ceiling [of 200 n] by simp
  from g e f o c show ?thesis by blast
qed

text \<open>
  C9, at 400 words separated by single spaces and at a body of one word.
\<close>

theorem estimateReadTime_word_count_witness:
  "(concat (replicate 399 (ascii ''word'' @ [32])) @ ascii ''word'' \<noteq> [] \<and>
    \<not> is_space (hd (concat (replicate 399 (ascii ''word'' @ [32])) @ ascii ''word'')) \<and>
    \<not> is_space (last (concat (replicate 399 (ascii ''word'' @ [32])) @ ascii ''word'')) \<and>
    length (words_of (concat (replicate 399 (ascii ''word'' @ [32])) @ ascii ''word'')) = 400 \<and>
    estimateReadTime (concat (replicate 399 (ascii ''word'' @ [32])) @ ascii ''word'') = ascii ''2 min read'') \<and>
   (length (words_of (ascii ''word'')) = 1 \<and>
    estimateReadTime (ascii ''word'') = ascii ''1 min read'')"
proof -
  let ?b = "concat (replicate 399 (ascii ''word'' @ [32])) @ ascii ''word''"
  have sp: "is_space 32" by (simp add: is_space_def)
  have w1: "words_of (ascii ''word'') = [ascii ''word'']"
    using word_word by (simp add: words_of_only_word del: ascii_simps)
  have h1: "?b \<noteq> []" by simp
  have h2: "\<not> is_space (hd ?b)"
    by (simp add: hd_append concat_replicate_Nil hd_concat_replicate is_space_def)
  have h3: "\<not> is_space (last ?b)" by (simp add: is_space_def)
  have h4: "length (words_of ?b) = 400"
    using word_word sp by (simp add: words_of_repeat w1 del: ascii_simps)
  have h5: "length (words_of (ascii ''word'')) = 1" by (simp add: w1 del: ascii_simps)
  from estimateReadTime_word_count [of ?b] h1 h2 h3 h4 have r1: "estimateReadTime ?b = ascii ''2 min read''" by blast
  from estimateReadTime_word_count [of "ascii ''word''"] h5 have r2: "estimateReadTime (ascii ''word'') = ascii ''1 min read''"
    by blast
  from h1 h2 h3 h4 h5 r1 r2 show ?thesis by blast
qed


section \<open>Properties of the lightbox navigation\<close>

subsection \<open>The index of the selection and one step\<close>

lemma findIndex_from_none: "\<forall>x\<in>set xs. \<not> P x \<Longrightarrow> findIndex_from k P xs = -1"
  by (induction xs arbitrary: k) auto


lemma currentIndex_absent:
  "photo_id sel \<notin> photo_id ` set ps \<Longrightarrow> currentIndex ps sel = -1"
  unfolding currentIndex_def findIndex_def
  by (rule findIndex_from_none) (metis image_eqI)









lemma staticPhotos_ids: "map photo_id staticPhotos = [1, 2, 3, 4, 5, 6]"
  by (simp add: staticPhotos_def static_photo_def)

lemma staticPhotos_length: "length staticPhotos = 6"
  by (simp add: staticPhotos_def)

subsection \<open>Round trips\<close>





subsection \<open>A selection that is no longer in the collection\<close>

text \<open>
  C7, as the specification states it: with the index \<open>-1\<close>, "next" lands on the item at
  index \<open>N - 1\<close>. It does not: \<open>(-1 + 1) % N\<close> is \<open>0\<close>. With a selection of
  identifier 7 over the six built-in photos, "next" selects the first photo, not the
  sixth.
\<close>

theorem navigatePhoto_absent_counterexample:
  "length staticPhotos = 6 \<and>
   photo_id (static_photo 7 [] [] [] [] []) \<notin> set (map photo_id staticPhotos) \<and>
   currentIndex staticPhotos (static_photo 7 [] [] [] [] []) = -1 \<and>
   selectedPhoto (navigatePhoto staticPhotos Next
       \<lparr>selectedPhoto = Some (static_photo 7 [] [] [] [] []), bodyOverflow = Some Hidden\<rparr>)
     = Some (staticPhotos ! 0) \<and>
   selectedPhoto (navigatePhoto staticPhotos Next
       \<lparr>selectedPhoto = Some (static_photo 7 [] [] [] [] []), bodyOverflow = Some Hidden\<rparr>)
     \<noteq> Some (staticPhotos ! 5)"
proof -
  have c: "currentIndex staticPhotos (static_photo 7 [] [] [] [] []) = -1"
    by (simp add: currentIndex_def findIndex_def staticPhotos_def static_photo_def)
  have n: "newIndex staticPhotos Next (static_photo 7 [] [] [] [] []) = Some 0"
    by (simp add: newIndex_def c js_rem_def staticPhotos_length)
  have "photo_id (staticPhotos ! 0) \<noteq> photo_id (staticPhotos ! 5)"
    by (simp add: staticPhotos_def static_photo_def)
  then have ne: "staticPhotos ! 0 \<noteq> staticPhotos ! 5" by auto
  have nin: "photo_id (static_photo 7 [] [] [] [] []) \<notin> set (map photo_id staticPhotos)"
    by (simp add: staticPhotos_ids static_photo_def)
  from ne nin show ?thesis
    by (simp add: c n navigatePhoto_def staticPhotos_length del: set_map)
qed

text \<open>
  C7, amended: for every non-empty collection, when the identifier of the selected item
  is not present in the collection, the computed index is \<open>-1\<close>, the new index of
  "next" is \<open>(-1 + 1) mod N = 0\<close>, and "next" selects the first item.
\<close>

theorem navigatePhoto_absent:
  assumes "ps \<noteq> []" and "selectedPhoto g = Some sel" and "photo_id sel \<notin> photo_id ` set ps"
  shows "currentIndex ps sel = -1 \<and> newIndex ps Next sel = Some 0 \<and>
     navigatePhoto ps Next g = g\<lparr>selectedPhoto := Some (ps ! 0)\<rparr>"
proof -
  have c: "currentIndex ps sel = -1" using assms(3) by (rule currentIndex_absent)
  have n: "newIndex ps Next sel = Some 0" using assms(1) by (simp add: newIndex_def c js_rem_def)
  show ?thesis using assms(1,2) by (simp add: c n navigatePhoto_def)
qed


text \<open>C7 on the built-in collection, with a selection of identifier 7.\<close>

theorem navigatePhoto_absent_witness:
  "staticPhotos \<noteq> [] \<and>
   selectedPhoto \<lparr>selectedPhoto = Some (static_photo 7 [] [] [] [] []), bodyOverflow = Some Hidden\<rparr>
     = Some (static_photo 7 [] [] [] [] []) \<and>
   photo_id (static_photo 7 [] [] [] [] []) \<notin> photo_id ` set staticPhotos \<and>
   currentIndex staticPhotos (static_photo 7 [] [] [] [] []) = -1 \<and>
   navigatePhoto staticPhotos Next
       \<lparr>selectedPhoto = Some (static_photo 7 [] [] [] [] []), bodyOverflow = Some Hidden\<rparr>
     = \<lparr>selectedPhoto = Some (staticPhotos ! 0), bodyOverflow = Some Hidden\<rparr>"
proof -
  let ?g = "\<lparr>selectedPhoto = Some (static_photo 7 [] [] [] [] []), bodyOverflow = Some Hidden\<rparr>"
  have a: "staticPhotos \<noteq> []" by (simp add: staticPhotos_def)
  have b: "selectedPhoto ?g = Some (static_photo 7 [] [] [] [] [])" by simp
  have "photo_id (static_photo 7 [] [] [] [] []) \<notin> set (map photo_id staticPhotos)"
    by (simp add: staticPhotos_ids static_photo_def)
  then have c: "photo_id (static_photo 7 [] [] [] [] []) \<notin> photo_id ` set staticPhotos"
    by simp
  from navigatePhoto_absent [OF a b c] a b c show ?thesis by simp
qed


section \<open>Properties of the displayed collections\<close>

text \<open>
  C5: when the query has no data or an empty array, the displayed collection is the
  built-in one, for photos and for essays alike; when the array is not empty, the
  displayed collection is the array of the transformed rows, one item per row with the
  identifier of its row and in the order of the rows, and nothing of the built-in
  collection is added.
\<close>

theorem fallback_wholesale:
  "photos env None = staticPhotos \<and> photos env (Some []) = staticPhotos \<and>
   essays env None = staticEssays \<and> essays env (Some []) = staticEssays \<and>
   (ps \<noteq> [] \<longrightarrow>
      photos env (Some ps) = map (toPhoto env) ps \<and>
      length (photos env (Some ps)) = length ps \<and>
      map photo_id (photos env (Some ps)) = map db_photo_id ps) \<and>
   (es \<noteq> [] \<longrightarrow>
      essays env (Some es) = map (toEssay env) es \<and>
      length (essays env (Some es)) = length es \<and>
      map essay_id (essays env (Some es)) = map db_essay_id es)"
  by (simp add: photos_def essays_def toPhoto_def toEssay_def)


text \<open>
  C5 on one row of each kind. The transformation fills the defaults: an absent location
  and an empty description become \<open>""\<close>, an empty setting becomes \<open>undefined\<close>, an
  absent category becomes "Uncategorized".
\<close>

theorem fallback_wholesale_witness:
  "[\<lparr>db_photo_id = 10, imageUrl = ascii ''/u/dunes.jpg'', db_photo_title = ascii ''Dunes'',
      db_location = None, db_photo_publishedAt = Some 0, db_description = Some [],
      db_camera = Some (ascii ''X100V''), db_lens = None, db_settings = Some []\<rparr>] \<noteq> [] \<and>
   photos \<lparr>now = 1, getFullYear = (\<lambda>t. 2025), monthYear = (\<lambda>t. ascii ''May 2025'')\<rparr>
     (Some [\<lparr>db_photo_id = 10, imageUrl = ascii ''/u/dunes.jpg'', db_photo_title = ascii ''Dunes'',
      db_location = None, db_photo_publishedAt = Some 0, db_description = Some [],
      db_camera = Some (ascii ''X100V''), db_lens = None, db_settings = Some []\<rparr>])
   = [\<lparr>photo_id = 10, src = ascii ''/u/dunes.jpg'', photo_title = ascii ''Dunes'',
       location = [], photo_year = ascii ''2025'', description = [],
       camera = Some (ascii ''X100V''), lens = None, settings = None\<rparr>] \<and>
   [\<lparr>db_essay_id = 20, db_essay_title = ascii ''Notes'', db_subtitle = None,
      db_excerpt = Some (ascii ''Short''), db_essay_publishedAt = None,
      db_content = Some (ascii ''one two three''), db_essay_category = None,
      coverImageUrl = Some []\<rparr>] \<noteq> [] \<and>
   essays \<lparr>now = 1, getFullYear = (\<lambda>t. 2025), monthYear = (\<lambda>t. ascii ''May 2025'')\<rparr>
     (Some [\<lparr>db_essay_id = 20, db_essay_title = ascii ''Notes'', db_subtitle = None,
      db_excerpt = Some (ascii ''Short''), db_essay_publishedAt = None,
      db_content = Some (ascii ''one two three''), db_essay_category = None,
      coverImageUrl = Some []\<rparr>])
   = [\<lparr>essay_id = 20, essay_title = ascii ''Notes'', subtitle = [], excerpt = ascii ''Short'',
       date = ascii ''May 2025'', readTime = ascii ''1 min read'',
       essay_category = ascii ''Uncategorized'', coverImage = ascii ''/images/image7.jpg''\<rparr>]"
proof -
  let ?env = "\<lparr>now = 1, getFullYear = (\<lambda>t. 2025), monthYear = (\<lambda>t. ascii ''May 2025'')\<rparr>"
  let ?p = "\<lparr>db_photo_id = 10, imageUrl = ascii ''/u/dunes.jpg'', db_photo_title = ascii ''Dunes'',
      db_location = None, db_photo_publishedAt = Some 0, db_description = Some [],
      db_camera = Some (ascii ''X100V''), db_lens = None, db_settings = Some []\<rparr>"
  let ?e = "\<lparr>db_essay_id = 20, db_essay_title = ascii ''Notes'', db_subtitle = None,
      db_excerpt = Some (ascii ''Short''), db_essay_publishedAt = None,
      db_content = Some (ascii ''one two three''), db_essay_category = None,
      coverImageUrl = Some []\<rparr>"
  have y: "decimal 2025 = ascii ''2025''"
    by (simp add: decimal.simps digit_def)
  have r: "estimateReadTime (ascii ''one two three'') = ascii ''1 min read''"
    by (simp add: estimateReadTime_def minutes_def wordCount_def split_ws_def is_space_def
          ceil_div_def wordsPerMinute_def decimal_small digit_def)
  have tp: "toPhoto ?env ?p = \<lparr>photo_id = 10, src = ascii ''/u/dunes.jpg'', photo_title = ascii ''Dunes'',
       location = [], photo_year = ascii ''2025'', description = [],
       camera = Some (ascii ''X100V''), lens = None, settings = None\<rparr>"
    by (simp add: toPhoto_def y del: ascii_simps) simp
  have te: "toEssay ?env ?e = \<lparr>essay_id = 20, essay_title = ascii ''Notes'', subtitle = [], excerpt = ascii ''Short'',
       date = ascii ''May 2025'', readTime = ascii ''1 min read'',
       essay_category = ascii ''Uncategorized'', coverImage = ascii ''/images/image7.jpg''\<rparr>"
    by (simp add: toEssay_def r del: ascii_simps) simp
  from fallback_wholesale [of ?env "[?p]" "[?e]"] tp te show ?thesis
    by (simp del: ascii_simps)
qed

subsection \<open>Categories\<close>

lemma set_foldl_set_add: "set (foldl set_add acc xs) = set acc \<union> set xs"
  by (induction xs arbitrary: acc) (auto simp: set_add_def)

lemma distinct_foldl_set_add: "distinct acc \<Longrightarrow> distinct (foldl set_add acc xs)"
  by (induction xs arbitrary: acc) (auto simp: set_add_def)

lemma set_new_Set: "set (new_Set xs) = set xs"
  by (simp add: new_Set_def set_foldl_set_add)

lemma distinct_new_Set: "distinct (new_Set xs)"
  by (simp add: new_Set_def distinct_foldl_set_add)

lemma staticEssays_categories:
  "map essay_category staticEssays =
     [ascii ''Photography'', ascii ''Travel'', ascii ''Travel'', ascii ''Photography'']"
  by (simp add: staticEssays_def del: ascii_simps)


text \<open>
  C10: with "All" selected the filtered list is the whole collection; with any other
  category it is the essays of that category, in the order of the collection. The
  selectable categories are "All" followed by the categories of the essays, each once.
\<close>

theorem filteredEssays_categories:
  "filteredEssays (ascii ''All'') es = es \<and>
   (selectedCategory \<noteq> ascii ''All'' \<longrightarrow>
      filteredEssays selectedCategory es = filter (\<lambda>e. essay_category e = selectedCategory) es \<and>
      set (filteredEssays selectedCategory es) = {e \<in> set es. essay_category e = selectedCategory} \<and>
      subseq (filteredEssays selectedCategory es) es) \<and>
   categories es = ascii ''All'' # new_Set (map essay_category es) \<and>
   distinct (new_Set (map essay_category es)) \<and>
   set (new_Set (map essay_category es)) = essay_category ` set es"
  by (simp add: filteredEssays_def categories_def set_new_Set distinct_new_Set del: ascii_simps)


text \<open>C10 on the built-in essays, with "Travel" selected.\<close>

theorem filteredEssays_categories_witness:
  "ascii ''Travel'' \<noteq> ascii ''All'' \<and>
   filteredEssays (ascii ''Travel'') staticEssays = [staticEssays ! 1, staticEssays ! 2] \<and>
   filteredEssays (ascii ''All'') staticEssays = staticEssays \<and>
   categories staticEssays = [ascii ''All'', ascii ''Photography'', ascii ''Travel'']"
proof -
  have ne: "ascii ''Travel'' \<noteq> ascii ''All''" by simp
  have ne2: "ascii ''Photography'' \<noteq> ascii ''Travel''" by simp
  have f: "filter (\<lambda>e. essay_category e = ascii ''Travel'') staticEssays
      = [staticEssays ! 1, staticEssays ! 2]"
    using ne2 by (simp add: staticEssays_def del: ascii_simps)
  have c: "categories staticEssays = [ascii ''All'', ascii ''Photography'', ascii ''Travel'']"
    using ne2 by (simp add: categories_def new_Set_def set_add_def staticEssays_categories del: ascii_simps)
  from filteredEssays_categories [of staticEssays "ascii ''Travel''"] ne f c
  show ?thesis by simp
qed


section \<open>Properties of the admin page\<close>

lemma effects_emit [simp]: "effects (emit e st) = effects st @ [e]"
  and isDialogOpen_emit [simp]: "isDialogOpen (emit e st) = isDialogOpen st"
  and isDeleteDialogOpen_emit [simp]: "isDeleteDialogOpen (emit e st) = isDeleteDialogOpen st"
  and editingId_emit [simp]: "editingId (emit e st) = editingId st"
  and deletingId_emit [simp]: "deletingId (emit e st) = deletingId st"
  and formData_emit [simp]: "formData (emit e st) = formData st"
  by (simp_all add: emit_def)

lemmas handler_defs =
  openCreateDialog_def openEditDialog_def closeDialog_def handleSubmit_def togglePublish_def
  deleteClick_def handleDelete_def createSuccess_def createError_def updateSuccess_def
  updateError_def deleteSuccess_def deleteError_def

lemma step_effects_prefix: "\<exists>new. effects (step y0 st ev) = effects st @ new"
  by (cases ev) (auto simp: handler_defs Let_def split: option.splits)

lemma step_delete_only_by_confirm:
  assumes "DeleteMutate i \<in> set (drop (length (effects st)) (effects (step y0 st ev)))"
  shows "ev = HandleDelete \<and> deletingId st = Some i \<and> i \<noteq> 0"
  using assms by (cases ev) (auto simp: handler_defs Let_def split: option.splits if_splits)

lemma step_deletingId:
  assumes "deletingId (step y0 st ev) = Some i"
  shows "ev = DeleteClick i \<or> deletingId st = Some i"
  using assms by (cases ev) (auto simp: handler_defs Let_def split: option.splits if_splits)

lemma run_snoc: "run y0 st (evs @ [ev]) = step y0 (run y0 st evs) ev"
  by (simp add: run_def)

lemma run_deletingId:
  "deletingId (run y0 (initial y0) evs) = Some i \<Longrightarrow> \<exists>j<length evs. evs ! j = DeleteClick i"
proof (induction evs rule: rev_induct)
  case Nil
  then show ?case by (simp add: run_def initial_def)
next
  case (snoc ev evs)
  from snoc.prems have "ev = DeleteClick i \<or> deletingId (run y0 (initial y0) evs) = Some i"
    by (simp add: run_snoc step_deletingId)
  then show ?case
  proof
    assume "ev = DeleteClick i"
    then have "(evs @ [ev]) ! length evs = DeleteClick i" by simp
    then show ?thesis by (metis length_append_singleton lessI)
  next
    assume "deletingId (run y0 (initial y0) evs) = Some i"
    then obtain j where "j < length evs" "evs ! j = DeleteClick i" using snoc.IH by blast
    then have "j < length (evs @ [ev])" "(evs @ [ev]) ! j = DeleteClick i"
      by (simp_all add: nth_append)
    then show ?thesis by blast
  qed
qed

lemma run_delete_confirmed:
  "DeleteMutate i \<in> set (effects (run y0 (initial y0) evs)) \<Longrightarrow>
   \<exists>k<length evs. evs ! k = HandleDelete \<and> (\<exists>j<k. evs ! j = DeleteClick i)"
proof (induction evs rule: rev_induct)
  case Nil
  then show ?case by (simp add: run_def initial_def)
next
  case (snoc ev evs)
  let ?st = "run y0 (initial y0) evs"
  obtain new where new: "effects (step y0 ?st ev) = effects ?st @ new"
    using step_effects_prefix by blast
  from snoc.prems new have "DeleteMutate i \<in> set (effects ?st) \<or> DeleteMutate i \<in> set new"
    by (auto simp: run_snoc)
  then show ?case
  proof
    assume "DeleteMutate i \<in> set (effects ?st)"
    then obtain k j where "k < length evs" "evs ! k = HandleDelete" "j < k" "evs ! j = DeleteClick i"
      using snoc.IH by blast
    then have "k < length (evs @ [ev])" "(evs @ [ev]) ! k = HandleDelete" "j < k"
      "(evs @ [ev]) ! j = DeleteClick i"
      by (simp_all add: nth_append)
    then show ?thesis by blast
  next
    assume "DeleteMutate i \<in> set new"
    with new have "DeleteMutate i \<in> set (drop (length (effects ?st)) (effects (step y0 ?st ev)))"
      by simp
    then have ev: "ev = HandleDelete" and d: "deletingId ?st = Some i"
      using step_delete_only_by_confirm by blast+
    from d obtain j where j: "j < length evs" "evs ! j = DeleteClick i"
      using run_deletingId by blast
    then have "(evs @ [ev]) ! j = DeleteClick i" by (simp add: nth_append)
    moreover have "(evs @ [ev]) ! length evs = HandleDelete" using ev by simp
    ultimately show ?thesis using j(1) by (metis length_append_singleton lessI)
  qed
qed

subsection \<open>Publishing\<close>

lemma row_of_simps [simp]:
  "paper_id (row_of r) = paper_id r" "paper_published (row_of r) = paper_published r"
  by (simp_all add: row_of_def paper.defs)




subsection \<open>Validation of the form\<close>

text \<open>
  C3: when the title is empty after trimming, or the authors are, submitting shows the
  notification of the first empty field and calls no mutation; when both are non-empty
  it calls the update mutation (an identifier is being edited) or the create mutation
  with the draft. So a mutation is called exactly when both fields are non-empty after
  trimming.
\<close>

theorem handleSubmit_validation:
  "(trim (title (formData st)) = [] \<longrightarrow>
      handleSubmit t st = emit (ToastError msg_title_required) st) \<and>
   (trim (title (formData st)) \<noteq> [] \<and> trim (authors (formData st)) = [] \<longrightarrow>
      handleSubmit t st = emit (ToastError msg_authors_required) st) \<and>
   (trim (title (formData st)) = [] \<or> trim (authors (formData st)) = [] \<longrightarrow>
      filter is_mutation (effects (handleSubmit t st)) = filter is_mutation (effects st)) \<and>
   (trim (title (formData st)) \<noteq> [] \<and> trim (authors (formData st)) \<noteq> [] \<longrightarrow>
      (editingId st = Some i \<and> i \<noteq> 0 \<longrightarrow>
         handleSubmit t st = emit (UpdateMutate (FormUpdate i (submitData_of t (formData st)))) st) \<and>
      (\<not> truthy_num (editingId st) \<longrightarrow>
         handleSubmit t st = emit (CreateMutate (submitData_of t (formData st))) st)) \<and>
   (filter is_mutation (effects (handleSubmit t st)) \<noteq> filter is_mutation (effects st) \<longleftrightarrow>
      trim (title (formData st)) \<noteq> [] \<and> trim (authors (formData st)) \<noteq> [])"
  by (cases "editingId st") (auto simp: handleSubmit_def)


text \<open>
  C3 on a draft with a blank title, on one with a title and no authors, and on one
  with both.
\<close>

theorem handleSubmit_validation_witness:
  "trim (title (formData
      \<lparr>isDialogOpen = True, isDeleteDialogOpen = False, editingId = None, deletingId = None,
       formData = (defaultFormData 2025)\<lparr>title := ascii ''  '', authors := ascii ''A. Author''\<rparr>,
       effects = []\<rparr>)) = [] \<and>
   effects (handleSubmit 9
      \<lparr>isDialogOpen = True, isDeleteDialogOpen = False, editingId = None, deletingId = None,
       formData = (defaultFormData 2025)\<lparr>title := ascii ''  '', authors := ascii ''A. Author''\<rparr>,
       effects = []\<rparr>) = [ToastError msg_title_required] \<and>
   trim (title (formData
      \<lparr>isDialogOpen = True, isDeleteDialogOpen = False, editingId = None, deletingId = None,
       formData = (defaultFormData 2025)\<lparr>title := ascii ''On Light''\<rparr>,
       effects = []\<rparr>)) \<noteq> [] \<and>
   trim (authors (formData
      \<lparr>isDialogOpen = True, isDeleteDialogOpen = False, editingId = None, deletingId = None,
       formData = (defaultFormData 2025)\<lparr>title := ascii ''On Light''\<rparr>,
       effects = []\<rparr>)) = [] \<and>
   effects (handleSubmit 9
      \<lparr>isDialogOpen = True, isDeleteDialogOpen = False, editingId = None, deletingId = None,
       formData = (defaultFormData 2025)\<lparr>title := ascii ''On Light''\<rparr>,
       effects = []\<rparr>) = [ToastError msg_authors_required] \<and>
   trim (title (formData
      \<lparr>isDialogOpen = True, isDeleteDialogOpen = False, editingId = None, deletingId = None,
       formData = (defaultFormData 2025)\<lparr>title := ascii ''On Light'', authors := ascii '' A. Author''\<rparr>,
       effects = []\<rparr>)) \<noteq> [] \<and>
   trim (authors (formData
      \<lparr>isDialogOpen = True, isDeleteDialogOpen = False, editingId = None, deletingId = None,
       formData = (defaultFormData 2025)\<lparr>title := ascii ''On Light'', authors := ascii '' A. Author''\<rparr>,
       effects = []\<rparr>)) \<noteq> [] \<and>
   effects (handleSubmit 9
      \<lparr>isDialogOpen = True, isDeleteDialogOpen = False, editingId = None, deletingId = None,
       formData = (defaultFormData 2025)\<lparr>title := ascii ''On Light'', authors := ascii '' A. Author''\<rparr>,
       effects = []\<rparr>) =
     [CreateMutate (submitData_of 9
        ((defaultFormData 2025)\<lparr>title := ascii ''On Light'', authors := ascii '' A. Author''\<rparr>))]"
proof -
  let ?b = "\<lparr>isDialogOpen = True, isDeleteDialogOpen = False, editingId = None, deletingId = None,
       formData = (defaultFormData 2025)\<lparr>title := ascii ''  '', authors := ascii ''A. Author''\<rparr>,
       effects = []\<rparr>"
  let ?a = "\<lparr>isDialogOpen = True, isDeleteDialogOpen = False, editingId = None, deletingId = None,
       formData = (defaultFormData 2025)\<lparr>title := ascii ''On Light''\<rparr>,
       effects = []\<rparr>"
  let ?g = "\<lparr>isDialogOpen = True, isDeleteDialogOpen = False, editingId = None, deletingId = None,
       formData = (defaultFormData 2025)\<lparr>title := ascii ''On Light'', authors := ascii '' A. Author''\<rparr>,
       effects = []\<rparr>"
  have hb: "trim (title (formData ?b)) = []" by (simp add: trim_def is_space_def)
  have ha: "trim (title (formData ?a)) \<noteq> []" "trim (authors (formData ?a)) = []"
    by (simp_all add: trim_def is_space_def defaultFormData_def)
  have hg: "trim (title (formData ?g)) \<noteq> []" "trim (authors (formData ?g)) \<noteq> []"
    by (simp_all add: trim_def is_space_def)
  have ig: "\<not> truthy_num (editingId ?g)" by simp
  from handleSubmit_validation [where st = ?b and t = 9 and i = 0] hb
  have "handleSubmit 9 ?b = emit (ToastError msg_title_required) ?b" by blast
  then have rb: "effects (handleSubmit 9 ?b) = [ToastError msg_title_required]" by simp
  from handleSubmit_validation [where st = ?a and t = 9 and i = 0] ha
  have "handleSubmit 9 ?a = emit (ToastError msg_authors_required) ?a" by blast
  then have ra: "effects (handleSubmit 9 ?a) = [ToastError msg_authors_required]" by simp
  from handleSubmit_validation [where st = ?g and t = 9 and i = 0] hg ig
  have "handleSubmit 9 ?g = emit (CreateMutate (submitData_of 9 (formData ?g))) ?g" by blast
  then have rg: "effects (handleSubmit 9 ?g) = [CreateMutate (submitData_of 9
        ((defaultFormData 2025)\<lparr>title := ascii ''On Light'', authors := ascii '' A. Author''\<rparr>))]"
    by simp
  from hb ha hg rb ra rg show ?thesis by blast
qed

subsection \<open>Outcome of a submission\<close>

text \<open>
  C4: when a create or an update succeeds, the cached list is invalidated, a success
  notification is shown, the dialog is closed, and the identifier being edited and the
  draft are reset to their defaults. When it fails, the only effect is an error
  notification that ends with the message of the failure; the submission itself has left
  the dialog, the identifier and the draft as they were, so they are still those of the
  user.
\<close>

theorem mutation_outcome:
  "createSuccess y0 st =
     st\<lparr>isDialogOpen := False, editingId := None, formData := defaultFormData y0,
        effects := effects st @ [InvalidateListAll, ToastSuccess msg_created]\<rparr> \<and>
   updateSuccess y0 st =
     st\<lparr>isDialogOpen := False, editingId := None, formData := defaultFormData y0,
        effects := effects st @ [InvalidateListAll, ToastSuccess msg_updated]\<rparr> \<and>
   createError message st = st\<lparr>effects := effects st @ [ToastError (msg_create_failed @ message)]\<rparr> \<and>
   updateError message st = st\<lparr>effects := effects st @ [ToastError (msg_update_failed @ message)]\<rparr> \<and>
   isDialogOpen (handleSubmit t st) = isDialogOpen st \<and>
   editingId (handleSubmit t st) = editingId st \<and>
   formData (handleSubmit t st) = formData st"
  by (simp add: createSuccess_def updateSuccess_def createError_def updateError_def closeDialog_def
        emit_def handleSubmit_def split: option.splits)


subsection \<open>Deleting\<close>

text \<open>
  C6: the delete button of a row records the identifier and opens the confirmation
  dialog, and has no effect outside the component. Whatever happens to the component,
  a call of the delete mutation for an identifier comes from the confirmation handler
  alone, run while that identifier is the pending one; in every history of the mounted
  component, such a call was made by a confirmation that a click on the delete
  button of that identifier precedes.
\<close>

theorem delete_needs_confirmation:
  "effects (deleteClick i st) = effects st \<and>
   deletingId (deleteClick i st) = Some i \<and>
   isDeleteDialogOpen (deleteClick i st) \<and>
   (DeleteMutate i \<in> set (drop (length (effects st)) (effects (step y0 st ev))) \<longrightarrow>
      ev = HandleDelete \<and> deletingId st = Some i) \<and>
   (DeleteMutate i \<in> set (effects (run y0 (initial y0) evs)) \<longrightarrow>
      (\<exists>k<length evs. evs ! k = HandleDelete \<and> (\<exists>j<k. evs ! j = DeleteClick i)))"
  using step_delete_only_by_confirm [of i st y0 ev] run_delete_confirmed [of i y0 evs]
  by (auto simp: deleteClick_def)


text \<open>C6 on the history of a click on the delete button of paper 3 and its confirmation.\<close>

theorem delete_needs_confirmation_witness:
  "effects (run 2025 (initial 2025) [DeleteClick 3]) = [] \<and>
   effects (run 2025 (initial 2025) [DeleteClick 3, HandleDelete]) = [DeleteMutate 3] \<and>
   DeleteMutate 3 \<in> set (drop (length (effects (run 2025 (initial 2025) [DeleteClick 3])))
       (effects (step 2025 (run 2025 (initial 2025) [DeleteClick 3]) HandleDelete))) \<and>
   deletingId (run 2025 (initial 2025) [DeleteClick 3]) = Some 3 \<and>
   DeleteMutate 3 \<in> set (effects (run 2025 (initial 2025) [DeleteClick 3, HandleDelete])) \<and>
   [DeleteClick 3, HandleDelete] ! 1 = HandleDelete \<and> [DeleteClick 3, HandleDelete] ! 0 = DeleteClick 3"
proof -
  have a: "effects (run 2025 (initial 2025) [DeleteClick 3]) = []"
    by (simp add: run_def initial_def deleteClick_def)
  have b: "effects (run 2025 (initial 2025) [DeleteClick 3, HandleDelete]) = [DeleteMutate 3]"
    by (simp add: run_def initial_def deleteClick_def handleDelete_def)
  have c: "effects (step 2025 (run 2025 (initial 2025) [DeleteClick 3]) HandleDelete) = [DeleteMutate 3]"
    by (simp add: run_def initial_def deleteClick_def handleDelete_def)
  have d: "DeleteMutate 3 \<in> set (drop (length (effects (run 2025 (initial 2025) [DeleteClick 3])))
       (effects (step 2025 (run 2025 (initial 2025) [DeleteClick 3]) HandleDelete)))"
    by (simp add: a c del: step.simps)
  have e: "DeleteMutate 3 \<in> set (effects (run 2025 (initial 2025) [DeleteClick 3, HandleDelete]))"
    by (simp add: b)
  from delete_needs_confirmation [of 3 "run 2025 (initial 2025) [DeleteClick 3]" 2025 HandleDelete
        "[DeleteClick 3, HandleDelete]"] d e
  have "deletingId (run 2025 (initial 2025) [DeleteClick 3]) = Some 3" by blast
  with a b d e show ?thesis by simp
qed

end
